theory Spec2Isabelle
  imports Main "HOL-Library.AList"
begin

section \<open>The recorder: an HTTP record/replay transport (recorder.go)\<close>

text \<open>
  A shallow embedding of \<^verbatim>\<open>recorder.go\<close>. The Go code mutates a \<^verbatim>\<open>*Recorder\<close>, reads
  and writes one file, and calls an underlying transport. Here every operation takes the
  recorder, the heap of recorded requests and responses, and the outside world, and returns
  them updated. A Go \<^verbatim>\<open>panic\<close> ends the call (\<open>Panics\<close>); a Go \<^verbatim>\<open>error\<close> is an ordinary
  return value that leaves the recorder usable (\<open>Inl\<close> inside \<open>Returns\<close>). Calls are taken
  one at a time: \<^verbatim>\<open>sync.Once\<close> is a flag and the mutex of \<^verbatim>\<open>OncePerCall\<close> is left out.
\<close>

subsection \<open>Panics, errors, outcomes\<close>

datatype panic =
    UnsupportedMode          \<comment> \<open>\<^verbatim>\<open>panic("Unsupported mode")\<close>\<close>
  | UnmarshalSession nat     \<comment> \<open>\<^verbatim>\<open>panic(fmt.Sprintf("unmarshal session %d from %s: %v", i, ...))\<close>\<close>
  | NilDereference           \<comment> \<open>run-time panic: field access through a nil pointer\<close>
  | IndexOutOfRange          \<comment> \<open>run-time panic: \<^verbatim>\<open>vv[0]\<close> on an empty slice\<close>

datatype 'a outcome = Panics panic | Returns 'a

subsection \<open>Strings: case folding, suffix test, splitting, decimal numbers\<close>

text \<open>
  \<^verbatim>\<open>strings.EqualFold\<close> on ASCII text: two strings are equal once every upper-case ASCII
  letter is lowered; \<open>fold_byte\<close> gives the code of the lowered byte. (Go folds non-ASCII
  runes by Unicode simple folding as well; methods and URLs are ASCII.)
\<close>

definition fold_byte :: "char \<Rightarrow> nat" where
  "fold_byte c = (let n = of_char c in if 65 \<le> n \<and> n \<le> 90 then n + 32 else n)"

definition EqualFold :: "string \<Rightarrow> string \<Rightarrow> bool" where
  "EqualFold s t \<longleftrightarrow> map fold_byte s = map fold_byte t"

definition HasSuffix :: "string \<Rightarrow> string \<Rightarrow> bool" where
  "HasSuffix s suffix \<longleftrightarrow>
     length suffix \<le> length s \<and> drop (length s - length suffix) s = suffix"

definition HasPrefix :: "string \<Rightarrow> string \<Rightarrow> bool" where
  "HasPrefix s prefix \<longleftrightarrow> take (length prefix) s = prefix"

text \<open>
  \<^verbatim>\<open>bytes.Split(s, sep)\<close> for a non-empty separator: the pieces of \<open>s\<close> between the
  non-overlapping occurrences of \<open>sep\<close>, found from the left; \<open>n\<close> occurrences give
  \<open>n + 1\<close> pieces, so the empty input gives one empty piece. \<open>cur\<close> is the piece being
  collected.
\<close>

fun Split_from :: "string \<Rightarrow> string \<Rightarrow> string \<Rightarrow> string list" where
  "Split_from sep cur [] = [cur]"
| "Split_from sep cur (c # cs) =
     (if HasPrefix (c # cs) sep
      then cur # Split_from sep [] (drop (length sep - 1) cs)
      else Split_from sep (cur @ [c]) cs)"

definition Split :: "string \<Rightarrow> string \<Rightarrow> string list" where
  "Split s sep = Split_from sep [] s"

text \<open>The document separator of the backing file, \<^verbatim>\<open>"\n---\n"\<close>.\<close>

definition document_separator :: string where
  "document_separator = ''\<newline>---\<newline>''"

text \<open>\<^verbatim>\<open>%d\<close> of a non-negative number.\<close>

function decimal :: "nat \<Rightarrow> string" where
  "decimal n =
     (if n < 10 then [''0123456789'' ! n]
      else decimal (n div 10) @ [''0123456789'' ! (n mod 10)])"
  by pat_completeness auto
termination
  by (relation "measure id") auto

subsection \<open>The entry model\<close>

text \<open>\<^verbatim>\<open>map[string]string\<close> and \<^verbatim>\<open>http.Header\<close> (\<^verbatim>\<open>map[string][]string\<close>) as association
  lists; the order of the list stands for the order in which Go happens to range over
  the map.\<close>

type_synonym header_map = "(string \<times> string) list"
type_synonym http_Header = "(string \<times> string list) list"

record Request =
  Method :: string
  URL :: string
  Headers :: header_map
  Body :: string

record Response =
  StatusCode :: int
  Headers :: header_map
  Body :: string

text \<open>
  An \<^verbatim>\<open>Entry\<close> holds two pointers, \<^verbatim>\<open>*Request\<close> and \<^verbatim>\<open>*Response\<close>. A pointer is \<open>None\<close>
  (nil) or the address of an object in the heap; an address is the position of the object
  in the heap's list, and allocation appends.
\<close>

type_synonym addr = nat

record Entry =
  Request :: "addr option"
  Response :: "addr option"

record Heap =
  requests :: "Request list"
  responses :: "Response list"

definition zero_Entry :: Entry where
  "zero_Entry = \<lparr>Request = None, Response = None\<rparr>"

text \<open>Reading through a pointer; \<open>None\<close> when the pointer is nil (or not allocated, which
  no Go pointer is).\<close>

definition load_Request :: "Heap \<Rightarrow> addr option \<Rightarrow> Request option" where
  "load_Request h p =
     (case p of None \<Rightarrow> None
      | Some a \<Rightarrow> if a < length (requests h) then Some (requests h ! a) else None)"

definition load_Response :: "Heap \<Rightarrow> addr option \<Rightarrow> Response option" where
  "load_Response h p =
     (case p of None \<Rightarrow> None
      | Some a \<Rightarrow> if a < length (responses h) then Some (responses h ! a) else None)"

definition new_Request :: "Request \<Rightarrow> Heap \<Rightarrow> addr \<times> Heap" where
  "new_Request rq h = (length (requests h), h\<lparr>requests := requests h @ [rq]\<rparr>)"

definition new_Response :: "Response \<Rightarrow> Heap \<Rightarrow> addr \<times> Heap" where
  "new_Response rs h = (length (responses h), h\<lparr>responses := responses h @ [rs]\<rparr>)"

subsection \<open>What the recorder sees of net/http, the file system and the clock\<close>

text \<open>An error value produced outside the recorder (transport, stream, file system,
  encoder); the recorder only passes it on.\<close>

datatype external_error = ExternalError string

text \<open>A body stream: what reading it to the end gives, and what closing it gives.\<close>

record body_stream =
  read_all :: "external_error + string"
  close :: "external_error option"

definition NopCloser :: "string \<Rightarrow> body_stream" where
  "NopCloser s = \<lparr>read_all = Inr s, close = None\<rparr>"

record http_Request =
  Method :: string
  URL :: string                    \<comment> \<open>\<^verbatim>\<open>req.URL.String()\<close>\<close>
  Header :: http_Header
  Body :: "body_stream option"     \<comment> \<open>\<open>None\<close> is a nil body\<close>

record http_Response =
  StatusCode :: int
  Header :: http_Header
  Body :: body_stream
  ContentLength :: int

datatype error =
    NoRequestError http_Request    \<comment> \<open>\<^verbatim>\<open>NoRequestError{Request: req}\<close>\<close>
  | External external_error        \<comment> \<open>\<^verbatim>\<open>return nil, err\<close> with an error from outside\<close>

text \<open>An \<^verbatim>\<open>http.RoundTripper\<close>: its answer may depend on the requests sent before.\<close>

type_synonym RoundTripper =
  "http_Request list \<Rightarrow> http_Request \<Rightarrow> external_error + http_Response"

record World =
  files :: "string \<rightharpoonup> string"     \<comment> \<open>the regular files, by path\<close>
  sent :: "http_Request list"       \<comment> \<open>the requests handed to a transport so far\<close>

datatype io_op = MkdirAll_Dir string | OpenFile string | Write string | Close string

text \<open>
  The collaborators outside the repository: the default transport, the YAML encoder and
  decoder (an entry is decoded into an \<^verbatim>\<open>Entry\<close> whose pointers may be left nil), the
  canonical form of a header key used by \<^verbatim>\<open>http.Header.Set\<close>, the formatted clock readings
  written as comments, and the failures of file operations.
\<close>

record Env =
  DefaultTransport :: RoundTripper
  Unmarshal :: "string \<Rightarrow> external_error + (Request option \<times> Response option)"
  Marshal :: "Request option \<times> Response option \<Rightarrow> external_error + string"
  CanonicalMIMEHeaderKey :: "string \<Rightarrow> string"
  timestamp :: "nat \<Rightarrow> string"
  roundtrip :: "nat \<Rightarrow> string"
  io_fault :: "io_op \<Rightarrow> World \<Rightarrow> external_error option"

subsection \<open>Modes, filters, selectors, the recorder\<close>

text \<open>\<^verbatim>\<open>type Mode int\<close> with the constants 0 to 3. A mode is only compared, never computed
  with, so the width of \<^verbatim>\<open>int\<close> plays no part.\<close>

type_synonym Mode = int

definition Auto :: Mode where "Auto = 0"
definition ReplayOnly :: Mode where "ReplayOnly = 1"
definition Record :: Mode where "Record = 2"
definition Passthrough :: Mode where "Passthrough = 3"

text \<open>A \<^verbatim>\<open>Filter\<close> is \<^verbatim>\<open>func(entry *Entry)\<close>: it may change the two pointers of the entry and
  the objects in the heap.\<close>

type_synonym Filter = "Entry \<times> Heap \<Rightarrow> (Entry \<times> Heap) outcome"

text \<open>A \<^verbatim>\<open>Selector\<close> is an object with one method and a state of its own.\<close>

datatype 's Selector =
  MkSelector
    (Select: "Heap \<Rightarrow> Entry list \<Rightarrow> http_Request \<Rightarrow> 's \<Rightarrow> ((Entry \<times> bool) \<times> 's) outcome")
    (self: 's)

record 's Recorder =
  Filename :: string
  Mode :: Mode
  Filters :: "Filter list"
  Transport :: "RoundTripper option"
  Selector :: "'s Selector option"
  once :: bool                      \<comment> \<open>\<^verbatim>\<open>sync.Once\<close>: has \<^verbatim>\<open>Do\<close> run\<close>
  index :: nat
  entries :: "Entry list"

type_synonym 's state = "'s Recorder \<times> Heap \<times> World"

definition New :: "Env \<Rightarrow> string \<Rightarrow> Filter list \<Rightarrow> 's Recorder" where
  "New env filename filters =
     \<lparr>Filename = filename, Mode = Auto, Filters = filters,
      Transport = Some (DefaultTransport env), Selector = None,
      once = False, index = 0, entries = []\<rparr>"

subsection \<open>loadFromDisk\<close>

text \<open>The loop over the chunks: \<open>i\<close> is the index of the next chunk.\<close>

fun load_values :: "Env \<Rightarrow> nat \<Rightarrow> string list \<Rightarrow> Entry list \<times> Heap \<Rightarrow> (Entry list \<times> Heap) outcome" where
  "load_values env i [] (es, h) = Returns (es, h)"
| "load_values env i (val # vals) (es, h) =
     (case Unmarshal env val of
        Inl err \<Rightarrow> Panics (UnmarshalSession i)
      | Inr (rq, rs) \<Rightarrow>
          (let (p, h1) = (case rq of None \<Rightarrow> (None, h)
                          | Some v \<Rightarrow> (let (a, h') = new_Request v h in (Some a, h')));
               (q, h2) = (case rs of None \<Rightarrow> (None, h1)
                          | Some v \<Rightarrow> (let (a, h') = new_Response v h1 in (Some a, h')))
           in load_values env (Suc i) vals (es @ [\<lparr>Request = p, Response = q\<rparr>], h2)))"

definition ReadFile :: "World \<Rightarrow> string \<Rightarrow> string option" where
  "ReadFile w name = files w name"

text \<open>Lines 105 to 107: the file name gets the extension unless it has it.\<close>

definition with_yml :: "string \<Rightarrow> string" where
  "with_yml name = (if \<not> HasSuffix name ''.yml'' then name @ ''.yml'' else name)"

definition loadFromDisk :: "Env \<Rightarrow> 's state \<Rightarrow> ('s state) outcome" where
  "loadFromDisk env st =
     (case st of (r, h, w) \<Rightarrow>
        if Mode r = Passthrough then Returns (r, h, w)
        else
          let r1 = r\<lparr>Filename := with_yml (Filename r)\<rparr>
          in (case ReadFile w (Filename r1) of
                None \<Rightarrow> Returns (r1, h, w)
              | Some existing \<Rightarrow>
                  (case load_values env 0 (Split existing document_separator) (entries r1, h) of
                     Panics p \<Rightarrow> Panics p
                   | Returns (es, h') \<Rightarrow> Returns (r1\<lparr>entries := es\<rparr>, h', w))))"

text \<open>\<^verbatim>\<open>r.once.Do(r.loadFromDisk)\<close>.\<close>

definition once_Do_loadFromDisk :: "Env \<Rightarrow> 's state \<Rightarrow> ('s state) outcome" where
  "once_Do_loadFromDisk env st =
     (case st of (r, h, w) \<Rightarrow>
        if once r then Returns (r, h, w)
        else (case loadFromDisk env (r, h, w) of
                Panics p \<Rightarrow> Panics p
              | Returns (r', h', w') \<Rightarrow> Returns (r'\<lparr>once := True\<rparr>, h', w')))"

subsection \<open>Lookup\<close>

fun Lookup_entries :: "Heap \<Rightarrow> string \<Rightarrow> string \<Rightarrow> Entry list \<Rightarrow> (Entry \<times> bool) outcome" where
  "Lookup_entries h method url [] = Returns (zero_Entry, False)"
| "Lookup_entries h method url (e # es) =
     (case load_Request h (Request e) of
        None \<Rightarrow> Panics NilDereference
      | Some rq \<Rightarrow>
          if EqualFold (Request.Method rq) method \<and> EqualFold (Request.URL rq) url
          then Returns (e, True)
          else Lookup_entries h method url es)"

definition Lookup :: "Env \<Rightarrow> 's state \<Rightarrow> string \<Rightarrow> string \<Rightarrow> ((Entry \<times> bool) \<times> 's state) outcome" where
  "Lookup env st method url =
     (case once_Do_loadFromDisk env st of
        Panics p \<Rightarrow> Panics p
      | Returns (r, h, w) \<Rightarrow>
          (case Lookup_entries h method url (entries r) of
             Panics p \<Rightarrow> Panics p
           | Returns found \<Rightarrow> Returns (found, (r, h, w))))"

subsection \<open>The provided filters and the two header conversions\<close>

definition RemoveRequestHeader :: "string \<Rightarrow> Filter" where
  "RemoveRequestHeader name = (\<lambda>(e, h).
     case load_Request h (Request e) of
       None \<Rightarrow> Panics NilDereference
     | Some rq \<Rightarrow>
         Returns (e, h\<lparr>requests := (requests h)
                    [the (Request e) := rq\<lparr>Request.Headers := AList.delete name (Request.Headers rq)\<rparr>]\<rparr>))"

definition RemoveResponseHeader :: "string \<Rightarrow> Filter" where
  "RemoveResponseHeader name = (\<lambda>(e, h).
     case load_Response h (Response e) of
       None \<Rightarrow> Panics NilDereference
     | Some rs \<Rightarrow>
         Returns (e, h\<lparr>responses := (responses h)
                    [the (Response e) := rs\<lparr>Response.Headers := AList.delete name (Response.Headers rs)\<rparr>]\<rparr>))"

text \<open>\<^verbatim>\<open>out[k] = vv[0]\<close> for every key of the header, into \<open>out\<close>.\<close>

fun flatten_into :: "header_map \<Rightarrow> http_Header \<Rightarrow> header_map outcome" where
  "flatten_into out [] = Returns out"
| "flatten_into out ((k, vv) # rest) =
     (case vv of
        [] \<Rightarrow> Panics IndexOutOfRange
      | v # _ \<Rightarrow> flatten_into (AList.update k v out) rest)"

definition flattenHeader :: "http_Header \<Rightarrow> header_map outcome" where
  "flattenHeader hdr = flatten_into [] hdr"

text \<open>\<^verbatim>\<open>out.Set(k, v)\<close> stores the one value under the canonical form of the key.\<close>

fun expand_into :: "(string \<Rightarrow> string) \<Rightarrow> http_Header \<Rightarrow> header_map \<Rightarrow> http_Header" where
  "expand_into canon out [] = out"
| "expand_into canon out ((k, v) # rest) = expand_into canon (AList.update (canon k) [v] out) rest"

definition expandHeader :: "Env \<Rightarrow> header_map \<Rightarrow> http_Header" where
  "expandHeader env m = expand_into (CanonicalMIMEHeaderKey env) [] m"

subsection \<open>OncePerCall\<close>

text \<open>The selector's \<^verbatim>\<open>used map[int]bool\<close> is nil until the first call; the mutex is not
  modelled, calls are taken one at a time.\<close>

record OncePerCall =
  used :: "(nat \<rightharpoonup> bool) option"

text \<open>The loop of \<^verbatim>\<open>Select\<close> from position \<open>i\<close> on; \<open>m\<close> is the map \<^verbatim>\<open>s.used\<close>, read with
  \<^verbatim>\<open>false\<close> for a missing key.\<close>

fun OncePerCall_range ::
  "Heap \<Rightarrow> http_Request \<Rightarrow> (nat \<rightharpoonup> bool) \<Rightarrow> nat \<Rightarrow> Entry list
     \<Rightarrow> ((Entry \<times> bool) \<times> (nat \<rightharpoonup> bool)) outcome" where
  "OncePerCall_range h req m i [] = Returns ((zero_Entry, False), m)"
| "OncePerCall_range h req m i (e # es) =
     (case load_Request h (Request e) of
        None \<Rightarrow> Panics NilDereference
      | Some rq \<Rightarrow>
          if \<not> EqualFold (Request.Method rq) (http_Request.Method req)
          then OncePerCall_range h req m (Suc i) es
          else if \<not> EqualFold (Request.URL rq) (http_Request.URL req)
          then OncePerCall_range h req m (Suc i) es
          else if m i \<noteq> Some True
          then Returns ((e, True), m(i \<mapsto> True))
          else OncePerCall_range h req m (Suc i) es)"

definition OncePerCall_Select ::
  "Heap \<Rightarrow> Entry list \<Rightarrow> http_Request \<Rightarrow> OncePerCall \<Rightarrow> ((Entry \<times> bool) \<times> OncePerCall) outcome" where
  "OncePerCall_Select h es req s =
     (let m = (case used s of None \<Rightarrow> Map.empty | Some m \<Rightarrow> m)
      in case OncePerCall_range h req m 0 es of
           Panics p \<Rightarrow> Panics p
         | Returns (found, m') \<Rightarrow> Returns (found, s\<lparr>used := Some m'\<rparr>))"

subsection \<open>RoundTrip\<close>

text \<open>Lines 143 to 149: the configured selector, or \<^verbatim>\<open>Lookup\<close>.\<close>

definition select_entry ::
  "Env \<Rightarrow> 's state \<Rightarrow> http_Request \<Rightarrow> ((Entry \<times> bool) \<times> 's state) outcome" where
  "select_entry env st req =
     (case st of (r, h, w) \<Rightarrow>
        (case Selector r of
           Some sel \<Rightarrow>
             (case Select sel h (entries r) req (self sel) of
                Panics p \<Rightarrow> Panics p
              | Returns (found, s') \<Rightarrow>
                  Returns (found, (r\<lparr>Selector := Some (MkSelector (Select sel) s')\<rparr>, h, w)))
         | None \<Rightarrow> Lookup env (r, h, w) (http_Request.Method req) (http_Request.URL req)))"

text \<open>The \<^verbatim>\<open>http.Response\<close> built from a recorded response (lines 152 to 157 and 217 to
  222).\<close>

definition response_of :: "Env \<Rightarrow> Response \<Rightarrow> http_Response" where
  "response_of env resp =
     \<lparr>StatusCode = Response.StatusCode resp,
      Header = expandHeader env (Response.Headers resp),
      Body = NopCloser (Response.Body resp),
      ContentLength = int (length (Response.Body resp))\<rparr>"

text \<open>Lines 151 to 157: \<^verbatim>\<open>resp := e.Response\<close>, then the fields of \<^verbatim>\<open>resp\<close> are read.\<close>

definition replay :: "Env \<Rightarrow> Heap \<Rightarrow> Entry \<Rightarrow> http_Response outcome" where
  "replay env h e =
     (case load_Response h (Response e) of
        None \<Rightarrow> Panics NilDereference
      | Some resp \<Rightarrow> Returns (response_of env resp))"

fun apply_Filters :: "Filter list \<Rightarrow> Entry \<times> Heap \<Rightarrow> (Entry \<times> Heap) outcome" where
  "apply_Filters [] eh = Returns eh"
| "apply_Filters (apply # rest) eh =
     (case apply eh of
        Panics p \<Rightarrow> Panics p
      | Returns eh' \<Rightarrow> apply_Filters rest eh')"

text \<open>
  \<^verbatim>\<open>os.OpenFile\<close> for writing: with \<^verbatim>\<open>O_CREATE|O_TRUNC\<close> the file is created or emptied, with
  \<^verbatim>\<open>O_APPEND\<close> alone it must exist. \<^verbatim>\<open>fmt.Fprintf\<close> appends to the open file; the source
  drops its result.
\<close>

definition OpenFile_write :: "Env \<Rightarrow> bool \<Rightarrow> string \<Rightarrow> World \<Rightarrow> external_error + World" where
  "OpenFile_write env trunc name w =
     (case io_fault env (OpenFile name) w of
        Some err \<Rightarrow> Inl err
      | None \<Rightarrow>
          if trunc then Inr (w\<lparr>files := (files w)(name \<mapsto> [])\<rparr>)
          else (case files w name of
                  None \<Rightarrow> Inl (ExternalError ''no such file or directory'')
                | Some c \<Rightarrow> Inr w))"

definition Fprintf :: "string \<Rightarrow> string \<Rightarrow> World \<Rightarrow> World" where
  "Fprintf name text w =
     (case files w name of
        None \<Rightarrow> w
      | Some c \<Rightarrow> w\<lparr>files := (files w)(name \<mapsto> c @ text)\<rparr>)"

text \<open>Lines 244 to 249: the separator before every document but the first, and the three
  comment lines.\<close>

definition write_comments :: "Env \<Rightarrow> nat \<Rightarrow> string \<Rightarrow> nat \<Rightarrow> World \<Rightarrow> World" where
  "write_comments env n f idx w1 =
     (let w2 = (if idx > 0 then Fprintf f ''\<newline>---\<newline>\<newline>'' w1 else w1);
          w3 = Fprintf f (''# request '' @ decimal idx @ ''\<newline>'') w2;
          w4 = Fprintf f (''# timestamp '' @ timestamp env n @ ''\<newline>'') w3
      in Fprintf f (''# roundtrip '' @ roundtrip env n @ ''\<newline>'') w4)"

text \<open>Lines 252 to 261: the entry is encoded, written, and the file closed.\<close>

definition write_entry ::
  "Env \<Rightarrow> string \<Rightarrow> Request option \<times> Response option \<Rightarrow> World \<Rightarrow> external_error option \<times> World" where
  "write_entry env f ev w5 =
     (case Marshal env ev of
        Inl err \<Rightarrow> (Some err, w5)
      | Inr b \<Rightarrow>
          (case io_fault env (Write f) w5 of
             Some err \<Rightarrow> (Some err, w5)
           | None \<Rightarrow>
               (let w6 = Fprintf f b w5
                in (case io_fault env (Close f) w6 of
                      Some err \<Rightarrow> (Some err, w6)
                    | None \<Rightarrow> (None, w6)))))"

text \<open>Lines 228 to 261: the entry \<open>e\<close> of live call number \<open>n\<close> is written to the file.\<close>

definition save_to_disk ::
  "Env \<Rightarrow> nat \<Rightarrow> Entry \<Rightarrow> 's state \<Rightarrow> external_error option \<times> 's state" where
  "save_to_disk env n e st =
     (case st of (r, h, w) \<Rightarrow>
       (case io_fault env (MkdirAll_Dir (Filename r)) w of
          Some err \<Rightarrow> (Some err, (r, h, w))
        | None \<Rightarrow>
            (case OpenFile_write env (index r = 0) (Filename r) w of
               Inl err \<Rightarrow> (Some err, (r, h, w))
             | Inr w1 \<Rightarrow>
                 (let w5 = write_comments env n (Filename r) (index r) w1;
                      r1 = r\<lparr>index := Suc (index r)\<rparr>;
                      (res, w6) = write_entry env (Filename r)
                                    (load_Request h (Request e), load_Response h (Response e)) w5
                  in (res, (r1, h, w6))))))"

text \<open>
  Lines 208 to 264. \<open>out\<close> and \<open>in\<close> are the objects behind the pointers of the same names;
  they are allocated, the entry is built from the two pointers, the filters run on the
  entry, the response for the caller is built from what the pointer \<^verbatim>\<open>in\<close> then points to,
  the entry is appended, and in \<open>Auto\<close> and \<open>Record\<close> mode it is written to the file.
  (The pointer \<^verbatim>\<open>in\<close> is never nil; reading it fails only on a heap from which a modelled
  filter removed objects, which no Go function can do.)
\<close>

definition record_entry ::
  "Env \<Rightarrow> nat \<Rightarrow> Request \<Rightarrow> Response \<Rightarrow> 's state
     \<Rightarrow> ((error + http_Response) \<times> 's state) outcome" where
  "record_entry env n out in' st =
     (case st of (r, h, w) \<Rightarrow>
        let (a_out, h1) = new_Request out h;
            (a_in, h2) = new_Response in' h1;
            e = \<lparr>Request = Some a_out, Response = Some a_in\<rparr>
        in (case apply_Filters (Filters r) (e, h2) of
              Panics p \<Rightarrow> Panics p
            | Returns (e', h3) \<Rightarrow>
                (case load_Response h3 (Some a_in) of
                   None \<Rightarrow> Panics NilDereference
                 | Some in_now \<Rightarrow>
                     (let resp = response_of env in_now;
                          r1 = r\<lparr>entries := entries r @ [e']\<rparr>
                      in if Mode r = Auto \<or> Mode r = Record
                         then (case save_to_disk env n e' (r1, h3, w) of
                                 (Some err, st') \<Rightarrow> Returns (Inl (External err), st')
                               | (None, st') \<Rightarrow> Returns (Inr resp, st'))
                         else Returns (Inr resp, (r1, h3, w))))))"

text \<open>
  Lines 164 to 206: the transport is defaulted, the request body is buffered, the request
  is recorded, the live call is made, the response is recorded. An early
  \<^verbatim>\<open>return nil, err\<close> returns the error with the state reached.
\<close>

definition live_call ::
  "Env \<Rightarrow> 's state \<Rightarrow> http_Request \<Rightarrow> ((error + http_Response) \<times> 's state) outcome" where
  "live_call env st req =
     (case st of (r0, h, w) \<Rightarrow>
        let transport = (case Transport r0 of None \<Rightarrow> DefaultTransport env | Some t \<Rightarrow> t);
            r = r0\<lparr>Transport := Some transport\<rparr>
        in (case (case http_Request.Body req of None \<Rightarrow> Inr [] | Some b \<Rightarrow> read_all b) of
              Inl err \<Rightarrow> Returns (Inl (External err), (r, h, w))
            | Inr bodyOut \<Rightarrow>
                (let req1 = req\<lparr>http_Request.Body := Some (NopCloser bodyOut)\<rparr>
                 in (case flattenHeader (http_Request.Header req) of
                       Panics p \<Rightarrow> Panics p
                     | Returns hdrs0 \<Rightarrow>
                         (case flatten_into hdrs0 (http_Request.Header req) of
                            Panics p \<Rightarrow> Panics p
                          | Returns hdrs \<Rightarrow>
                              (let out = \<lparr>Request.Method = http_Request.Method req,
                                          Request.URL = http_Request.URL req,
                                          Request.Headers = hdrs, Request.Body = bodyOut\<rparr>;
                                   n = length (sent w);
                                   w1 = w\<lparr>sent := sent w @ [req1]\<rparr>
                               in (case transport (sent w) req1 of
                                     Inl err \<Rightarrow> Returns (Inl (External err), (r, h, w1))
                                   | Inr resp \<Rightarrow>
                                       (case flattenHeader (http_Response.Header resp) of
                                          Panics p \<Rightarrow> Panics p
                                        | Returns rh \<Rightarrow>
                                            (case read_all (http_Response.Body resp) of
                                               Inl err \<Rightarrow> Returns (Inl (External err), (r, h, w1))
                                             | Inr bodyIn \<Rightarrow>
                                                 (case close (http_Response.Body resp) of
                                                    Some err \<Rightarrow>
                                                      Returns (Inl (External err), (r, h, w1))
                                                  | None \<Rightarrow>
                                                      record_entry env n out
                                                        \<lparr>Response.StatusCode = http_Response.StatusCode resp,
                                                         Response.Headers = rh,
                                                         Response.Body = bodyIn\<rparr>
                                                        (r, h, w1)))))))))))"

definition RoundTrip ::
  "Env \<Rightarrow> 's state \<Rightarrow> http_Request \<Rightarrow> ((error + http_Response) \<times> 's state) outcome" where
  "RoundTrip env st req =
     (case st of (r, h, w) \<Rightarrow>
        if Mode r > Passthrough then Panics UnsupportedMode
        else (case once_Do_loadFromDisk env (r, h, w) of
                Panics p \<Rightarrow> Panics p
              | Returns (r1, h1, w1) \<Rightarrow>
                  if Mode r1 = Auto \<or> Mode r1 = ReplayOnly
                  then (case select_entry env (r1, h1, w1) req of
                          Panics p \<Rightarrow> Panics p
                        | Returns ((e, ok), (r2, h2, w2)) \<Rightarrow>
                            if ok
                            then (case replay env h2 e of
                                    Panics p \<Rightarrow> Panics p
                                  | Returns resp \<Rightarrow> Returns (Inr resp, (r2, h2, w2)))
                            else if Mode r2 = ReplayOnly
                            then Returns (Inl (NoRequestError req), (r2, h2, w2))
                            else live_call env (r2, h2, w2) req)
                  else live_call env (r1, h1, w1) req))"

subsection \<open>A small environment for worked examples\<close>

text \<open>
  A transport that answers every request with status 200 and the body \<^verbatim>\<open>call n\<close> for the
  \<open>n\<close>-th request sent; a decoder that, like yaml.v2, accepts the empty document and
  leaves the entry as it was (both pointers nil), accepts a document with a request and
  no response and leaves the response pointer nil, accepts one full document, and rejects
  everything else here; an encoder that writes a fixed text; no failing file operation.
\<close>

definition example_transport :: RoundTripper where
  "example_transport history req =
     Inr \<lparr>StatusCode = 200, Header = [(''Content-Type'', [''text/plain''])],
          Body = NopCloser (''call '' @ decimal (Suc (length history))),
          ContentLength = - 1\<rparr>"

definition request_only_document :: string where
  "request_only_document = ''request: {method: GET, url: http://x/1}''"

definition full_document :: string where
  "full_document =
     ''request: {method: GET, url: http://x/1}\<newline>response: {status_code: 200, body: hello}''"

definition example_Unmarshal ::
  "string \<Rightarrow> external_error + (Request option \<times> Response option)" where
  "example_Unmarshal doc =
     (if doc = [] then Inr (None, None)
      else if doc = request_only_document
      then Inr (Some \<lparr>Request.Method = ''GET'', Request.URL = ''http://x/1'',
                      Request.Headers = [], Request.Body = []\<rparr>, None)
      else if doc = full_document
      then Inr (Some \<lparr>Request.Method = ''GET'', Request.URL = ''http://x/1'',
                      Request.Headers = [], Request.Body = []\<rparr>,
                Some \<lparr>Response.StatusCode = 200, Response.Headers = [],
                      Response.Body = ''hello''\<rparr>)
      else Inl (ExternalError ''yaml: unmarshal errors''))"

definition example_Env :: Env where
  "example_Env =
     \<lparr>DefaultTransport = example_transport,
      Unmarshal = example_Unmarshal,
      Marshal = (\<lambda>e. Inr ''entry''),
      CanonicalMIMEHeaderKey = (\<lambda>k. k),
      timestamp = (\<lambda>n. ''t''),
      roundtrip = (\<lambda>n. ''d''),
      io_fault = (\<lambda>op w. None)\<rparr>"

definition empty_Heap :: Heap where
  "empty_Heap = \<lparr>requests = [], responses = []\<rparr>"

definition empty_World :: World where
  "empty_World = \<lparr>files = Map.empty, sent = []\<rparr>"

definition GET :: "string \<Rightarrow> http_Request" where
  "GET url = \<lparr>Method = ''GET'', URL = url, Header = [], Body = None\<rparr>"

text \<open>A fresh recorder without selector, in a given mode.\<close>

definition recorder_in :: "Mode \<Rightarrow> Filter list \<Rightarrow> unit Recorder" where
  "recorder_in m filters = (New example_Env ''rec'' filters)\<lparr>Mode := m\<rparr>"

text \<open>A heap with one recorded request and response, and a recorder that has loaded
  the entry made of them.\<close>

definition example_Heap :: Heap where
  "example_Heap =
     \<lparr>requests = [\<lparr>Request.Method = ''GET'', Request.URL = ''http://x/1'',
                   Request.Headers = [], Request.Body = []\<rparr>],
      responses = [\<lparr>Response.StatusCode = 200,
                    Response.Headers = [(''Content-Type'', ''text/plain'')],
                    Response.Body = ''hello''\<rparr>]\<rparr>"

definition loaded_recorder :: "Mode \<Rightarrow> unit Recorder" where
  "loaded_recorder m =
     (recorder_in m [])\<lparr>once := True, entries := [\<lparr>Request = Some 0, Response = Some 0\<rparr>]\<rparr>"


text \<open>A backing file that exists and is empty, and one that holds a request without a
  response; the recorder and heap that loading the latter gives.\<close>

definition empty_file_World :: World where
  "empty_file_World = \<lparr>files = [''rec.yml'' \<mapsto> []], sent = []\<rparr>"

definition request_only_World :: World where
  "request_only_World = \<lparr>files = [''rec.yml'' \<mapsto> request_only_document], sent = []\<rparr>"

definition request_only_Heap :: Heap where
  "request_only_Heap =
     \<lparr>requests = [\<lparr>Request.Method = ''GET'', Request.URL = ''http://x/1'',
                   Request.Headers = [], Request.Body = []\<rparr>],
      responses = []\<rparr>"

definition request_only_recorder :: "Mode \<Rightarrow> unit Recorder" where
  "request_only_recorder m =
     (recorder_in m [])\<lparr>Filename := ''rec.yml'', once := True,
                        entries := [\<lparr>Request = Some 0, Response = None\<rparr>]\<rparr>"

subsection \<open>Notions used to state the properties\<close>







text \<open>
  Several calls of \<open>Select\<close> on the same selector and the same list, one after the other,
  with the answers in order. An entry matches a request when it matches its method and
  URL; \<open>nth_match\<close> is the answer expected of the consume-once selector for a request
  whose key was asked for \<open>c\<close> times before: the matching entry number \<open>c\<close> in list order,
  or the zero entry and \<open>False\<close> when there are not that many.
\<close>

fun Select_calls ::
  "Heap \<Rightarrow> Entry list \<Rightarrow> http_Request list \<Rightarrow> OncePerCall
     \<Rightarrow> ((Entry \<times> bool) list \<times> OncePerCall) outcome" where
  "Select_calls h es [] s = Returns ([], s)"
| "Select_calls h es (req # reqs) s =
     (case OncePerCall_Select h es req s of
        Panics p \<Rightarrow> Panics p
      | Returns (found, s') \<Rightarrow>
          (case Select_calls h es reqs s' of
             Panics p \<Rightarrow> Panics p
           | Returns (founds, s'') \<Rightarrow> Returns (found # founds, s'')))"





text \<open>
  A filter works in place when it leaves the two pointers of the entry where they are,
  allocates nothing, and leaves the method and URL of every recorded request as they are.
  It may change headers, bodies and status codes. The two provided filters work in place.
\<close>

definition in_place :: "Filter \<Rightarrow> bool" where
  "in_place f \<longleftrightarrow>
     (\<forall>e h e' h'. f (e, h) = Returns (e', h') \<longrightarrow>
        Request e' = Request e \<and> Response e' = Response e
        \<and> length (requests h') = length (requests h)
        \<and> length (responses h') = length (responses h)
        \<and> (\<forall>a < length (requests h).
              Request.Method (requests h' ! a) = Request.Method (requests h ! a)
              \<and> Request.URL (requests h' ! a) = Request.URL (requests h ! a)))"

text \<open>The heap \<open>h'\<close> keeps the keys of \<open>h\<close>: every request of \<open>h\<close> is still there with its
  method and URL.\<close>

definition keys_kept :: "Heap \<Rightarrow> Heap \<Rightarrow> bool" where
  "keys_kept h h' \<longleftrightarrow>
     length (requests h) \<le> length (requests h')
     \<and> (\<forall>a < length (requests h).
           Request.Method (requests h' ! a) = Request.Method (requests h ! a)
           \<and> Request.URL (requests h' ! a) = Request.URL (requests h ! a))"

text \<open>Several calls of \<open>RoundTrip\<close>, one after the other, on the same recorder; and the
  number of requests handed to a transport at the end.\<close>

fun RoundTrips ::
  "Env \<Rightarrow> 's state \<Rightarrow> http_Request list \<Rightarrow> ((error + http_Response) list \<times> 's state) outcome" where
  "RoundTrips env st [] = Returns ([], st)"
| "RoundTrips env st (req # reqs) =
     (case RoundTrip env st req of
        Panics p \<Rightarrow> Panics p
      | Returns (res, st') \<Rightarrow>
          (case RoundTrips env st' reqs of
             Panics p \<Rightarrow> Panics p
           | Returns (ress, st'') \<Rightarrow> Returns (res # ress, st'')))"

definition live_calls :: "('a \<times> 's state) outcome \<Rightarrow> nat option" where
  "live_calls out = (case out of Panics p \<Rightarrow> None | Returns (x, (r, h, w)) \<Rightarrow> Some (length (sent w)))"

subsection \<open>Recorders, filters and states of the worked examples\<close>

text \<open>A recorder in \<open>Auto\<close> mode with the consume-once selector.\<close>

definition once_per_call_recorder :: "OncePerCall Recorder" where
  "once_per_call_recorder =
     (New example_Env ''rec'' [])\<lparr>Selector := Some (MkSelector OncePerCall_Select \<lparr>used = None\<rparr>)\<rparr>"

text \<open>The two responses of the example transport, as the caller receives them.\<close>

definition call_1 :: http_Response where
  "call_1 = \<lparr>StatusCode = 200, Header = [(''Content-Type'', [''text/plain''])],
             Body = NopCloser ''call 1'', ContentLength = 6\<rparr>"

definition call_2 :: http_Response where
  "call_2 = \<lparr>StatusCode = 200, Header = [(''Content-Type'', [''text/plain''])],
             Body = NopCloser ''call 2'', ContentLength = 6\<rparr>"

text \<open>The state after one call through a recorder in \<open>Auto\<close> mode that removes the
  \<^verbatim>\<open>Authorization\<close> header of the request.\<close>

definition first_call_state :: "unit state" where
  "first_call_state =
     ((recorder_in Auto [RemoveRequestHeader ''Authorization''])
        \<lparr>Filename := ''rec.yml'', once := True, index := 1,
         entries := [\<lparr>Request = Some 0, Response = Some 0\<rparr>]\<rparr>,
      \<lparr>requests = [\<lparr>Request.Method = ''GET'', Request.URL = ''http://x/1'',
                    Request.Headers = [], Request.Body = []\<rparr>],
       responses = [\<lparr>Response.StatusCode = 200,
                     Response.Headers = [(''Content-Type'', ''text/plain'')],
                     Response.Body = ''call 1''\<rparr>]\<rparr>,
      \<lparr>files = [''rec.yml'' \<mapsto>
                 ''# request 0\<newline># timestamp t\<newline># roundtrip d\<newline>entry''],
       sent = [(GET ''http://x/1'')\<lparr>http_Request.Header := [(''Authorization'', [''abc''])],
                                     http_Request.Body := Some (NopCloser [])\<rparr>]\<rparr>)"

text \<open>The state after two calls for the same URL through a recorder in \<open>Passthrough\<close>
  mode, and the state after one call through such a recorder that removes the
  \<^verbatim>\<open>Content-Type\<close> header of the response.\<close>

definition two_calls_state :: "unit state" where
  "two_calls_state =
     ((recorder_in Passthrough [])
        \<lparr>once := True,
         entries := [\<lparr>Request = Some 0, Response = Some 0\<rparr>,
                     \<lparr>Request = Some 1, Response = Some 1\<rparr>]\<rparr>,
      \<lparr>requests = [\<lparr>Request.Method = ''GET'', Request.URL = ''http://x/1'',
                    Request.Headers = [], Request.Body = []\<rparr>,
                   \<lparr>Request.Method = ''GET'', Request.URL = ''http://x/1'',
                    Request.Headers = [], Request.Body = []\<rparr>],
       responses = [\<lparr>Response.StatusCode = 200,
                     Response.Headers = [(''Content-Type'', ''text/plain'')],
                     Response.Body = ''call 1''\<rparr>,
                    \<lparr>Response.StatusCode = 200,
                     Response.Headers = [(''Content-Type'', ''text/plain'')],
                     Response.Body = ''call 2''\<rparr>]\<rparr>,
      \<lparr>files = Map.empty,
       sent = [(GET ''http://x/1'')\<lparr>http_Request.Body := Some (NopCloser [])\<rparr>,
               (GET ''http://x/1'')\<lparr>http_Request.Body := Some (NopCloser [])\<rparr>]\<rparr>)"

definition one_call_state :: "unit state" where
  "one_call_state =
     ((recorder_in Passthrough [RemoveResponseHeader ''Content-Type''])
        \<lparr>once := True, entries := [\<lparr>Request = Some 0, Response = Some 0\<rparr>]\<rparr>,
      \<lparr>requests = [\<lparr>Request.Method = ''GET'', Request.URL = ''http://x/1'',
                    Request.Headers = [], Request.Body = []\<rparr>],
       responses = [\<lparr>Response.StatusCode = 200, Response.Headers = [],
                     Response.Body = ''call 1''\<rparr>]\<rparr>,
      \<lparr>files = Map.empty,
       sent = [(GET ''http://x/1'')\<lparr>http_Request.Body := Some (NopCloser [])\<rparr>]\<rparr>)"

text \<open>A filter that points the entry at a new response:
  \<^verbatim>\<open>func(e *Entry) { e.Response = &Response{StatusCode: 418, Body: "redacted"} }\<close>.\<close>

definition replace_Response :: Filter where
  "replace_Response = (\<lambda>(e, h).
     let (a, h') = new_Response \<lparr>Response.StatusCode = 418, Response.Headers = [],
                                  Response.Body = ''redacted''\<rparr> h
     in Returns (e\<lparr>Response := Some a\<rparr>, h'))"

text \<open>A filter that rewrites the recorded URL:
  \<^verbatim>\<open>func(e *Entry) { e.Request.URL = "http://redacted/" }\<close>.\<close>

definition rewrite_URL :: Filter where
  "rewrite_URL = (\<lambda>(e, h).
     case load_Request h (Request e) of
       None \<Rightarrow> Panics NilDereference
     | Some rq \<Rightarrow>
         Returns (e, h\<lparr>requests := (requests h)
                    [the (Request e) := rq\<lparr>Request.URL := ''http://redacted/''\<rparr>]\<rparr>))"

text \<open>An environment whose decoder accepts the full document only, a backing file with
  that document, and the state after loading it and recording one more call.\<close>

definition strict_Env :: Env where
  "strict_Env = example_Env\<lparr>Unmarshal := (\<lambda>doc.
     if doc = full_document
     then Inr (Some \<lparr>Request.Method = ''GET'', Request.URL = ''http://x/1'',
                     Request.Headers = [], Request.Body = []\<rparr>,
               Some \<lparr>Response.StatusCode = 200, Response.Headers = [],
                     Response.Body = ''hello''\<rparr>)
     else Inl (ExternalError ''yaml: unmarshal errors''))\<rparr>"

definition full_World :: World where
  "full_World = \<lparr>files = [''rec.yml'' \<mapsto> full_document], sent = []\<rparr>"

definition loaded_and_called_state :: "unit state" where
  "loaded_and_called_state =
     ((recorder_in Auto [RemoveRequestHeader ''Authorization''])
        \<lparr>Filename := ''rec.yml'', once := True, index := 1,
         entries := [\<lparr>Request = Some 0, Response = Some 0\<rparr>,
                     \<lparr>Request = Some 1, Response = Some 1\<rparr>]\<rparr>,
      \<lparr>requests = [\<lparr>Request.Method = ''GET'', Request.URL = ''http://x/1'',
                    Request.Headers = [], Request.Body = []\<rparr>,
                   \<lparr>Request.Method = ''GET'', Request.URL = ''http://x/2'',
                    Request.Headers = [], Request.Body = []\<rparr>],
       responses = [\<lparr>Response.StatusCode = 200, Response.Headers = [],
                     Response.Body = ''hello''\<rparr>,
                    \<lparr>Response.StatusCode = 200,
                     Response.Headers = [(''Content-Type'', ''text/plain'')],
                     Response.Body = ''call 1''\<rparr>]\<rparr>,
      \<lparr>files = [''rec.yml'' \<mapsto>
                 ''# request 0\<newline># timestamp t\<newline># roundtrip d\<newline>entry''],
       sent = [(GET ''http://x/2'')\<lparr>http_Request.Body := Some (NopCloser [])\<rparr>]\<rparr>)"

text \<open>The entries and requests of \<^verbatim>\<open>TestOncePerCall\<close>, the requests for the three keys
  interleaved.\<close>

definition PUT :: "string \<Rightarrow> http_Request" where
  "PUT url = \<lparr>Method = ''PUT'', URL = url, Header = [], Body = None\<rparr>"

definition recorded :: "string \<Rightarrow> string \<Rightarrow> Request" where
  "recorded method url =
     \<lparr>Request.Method = method, Request.URL = url, Request.Headers = [], Request.Body = []\<rparr>"

definition answered :: "string \<Rightarrow> Response" where
  "answered body = \<lparr>Response.StatusCode = 0, Response.Headers = [], Response.Body = body\<rparr>"

definition test_Heap :: Heap where
  "test_Heap =
     \<lparr>requests = [recorded ''GET'' ''http://foo.com/bar'', recorded ''GET'' ''http://foo.com/bar'',
                   recorded ''GET'' ''http://foo.com/bar'', recorded ''GET'' ''http://foo.com/baz'',
                   recorded ''PUT'' ''http://foo.com/baz''],
      responses = [answered ''1'', answered ''2'', answered ''3'', answered ''baz!'',
                    answered ''putbaz!'']\<rparr>"

definition test_entries :: "Entry list" where
  "test_entries =
     [\<lparr>Request = Some 0, Response = Some 0\<rparr>, \<lparr>Request = Some 1, Response = Some 1\<rparr>,
      \<lparr>Request = Some 2, Response = Some 2\<rparr>, \<lparr>Request = Some 3, Response = Some 3\<rparr>,
      \<lparr>Request = Some 4, Response = Some 4\<rparr>]"

definition test_requests :: "http_Request list" where
  "test_requests =
     [GET ''http://foo.com/bar'', GET ''http://foo.com/baz'', GET ''http://foo.com/bar'',
      PUT ''http://foo.com/baz'', GET ''http://foo.com/bar'', GET ''http://foo.com/bar'',
      GET ''http://foo.com/baz'', PUT ''http://foo.com/baz'']"

definition founds_of :: "((Entry \<times> bool) list \<times> OncePerCall) outcome \<Rightarrow> (Entry \<times> bool) list" where
  "founds_of out = (case out of Panics p \<Rightarrow> [] | Returns (founds, s) \<Rightarrow> founds)"

section \<open>Evaluation and frame lemmas\<close>

lemmas mode_defs = Auto_def ReplayOnly_def Record_def Passthrough_def

lemmas example_defs = example_Env_def example_transport_def example_Unmarshal_def
  empty_Heap_def empty_World_def GET_def recorder_in_def New_def example_Heap_def
  loaded_recorder_def empty_file_World_def request_only_World_def request_only_Heap_def
  request_only_recorder_def request_only_document_def full_document_def

lemmas test_defs = test_Heap_def test_entries_def test_requests_def PUT_def GET_def recorded_def
  answered_def

lemmas fixture_defs = once_per_call_recorder_def first_call_state_def call_1_def call_2_def
  two_calls_state_def one_call_state_def replace_Response_def strict_Env_def full_World_def
  loaded_and_called_state_def rewrite_URL_def

lemmas RoundTrip_eval = RoundTrip_def select_entry_def Lookup_def once_Do_loadFromDisk_def
  loadFromDisk_def ReadFile_def replay_def live_call_def record_entry_def save_to_disk_def
  write_comments_def write_entry_def OpenFile_write_def Fprintf_def flattenHeader_def
  NopCloser_def new_Request_def new_Response_def load_Request_def load_Response_def
  response_of_def expandHeader_def zero_Entry_def



lemmas string_defs = EqualFold_def fold_byte_def HasSuffix_def HasPrefix_def with_yml_def
  document_separator_def Split_def

lemma loadFromDisk_frame:
  assumes "loadFromDisk env (r, h, w) = Returns (r', h', w')"
  shows "w' = w \<and> Mode r' = Mode r \<and> Selector r' = Selector r \<and> Filters r' = Filters r
         \<and> Transport r' = Transport r \<and> index r' = index r \<and> once r' = once r"
  using assms
  by (auto simp: loadFromDisk_def Let_def split: if_splits option.splits outcome.splits)

lemma once_Do_frame:
  assumes "once_Do_loadFromDisk env (r, h, w) = Returns (r', h', w')"
  shows "w' = w \<and> Mode r' = Mode r \<and> Selector r' = Selector r \<and> Filters r' = Filters r
         \<and> Transport r' = Transport r \<and> index r' = index r \<and> once r'"
  using assms loadFromDisk_frame[of env r h w]
  by (auto simp: once_Do_loadFromDisk_def split: if_splits outcome.splits)

lemma once_Do_done: "once r \<Longrightarrow> once_Do_loadFromDisk env (r, h, w) = Returns (r, h, w)"
  by (simp add: once_Do_loadFromDisk_def)

lemma Lookup_frame:
  assumes "once r" and "Lookup env (r, h, w) m u = Returns (found, st)"
  shows "st = (r, h, w)"
  using assms by (auto simp: Lookup_def once_Do_done split: outcome.splits)

lemma select_entry_frame:
  assumes "once r" and "select_entry env (r, h, w) req = Returns (found, (r', h', w'))"
  shows "w' = w \<and> h' = h \<and> Mode r' = Mode r \<and> entries r' = entries r \<and> index r' = index r
         \<and> Filters r' = Filters r \<and> Transport r' = Transport r \<and> Filename r' = Filename r
         \<and> once r'"
proof (cases "Selector r")
  case None
  with assms(2) have "Lookup env (r, h, w) (http_Request.Method req) (http_Request.URL req)
      = Returns (found, (r', h', w'))" by (simp add: select_entry_def)
  from Lookup_frame[OF assms(1) this] assms(1) show ?thesis by simp
next
  case (Some sel)
  with assms show ?thesis
    by (auto simp: select_entry_def split: outcome.splits)
qed


section \<open>Replay without a recorded entry\<close>



section \<open>Modes outside the enumeration\<close>

text \<open>
  C8. The doc comment of \<open>RoundTrip\<close> says that setting a mode other than the four listed
  causes a panic. The guard is \<^verbatim>\<open>r.Mode > Passthrough\<close>, so a mode above \<open>Passthrough\<close>
  panics, but a negative mode passes: with mode \<open>- 1\<close> the call loads, sends the request to
  the transport, appends the entry and returns the response, like \<open>Passthrough\<close> with a load.
\<close>

theorem RoundTrip_negative_Mode:
  "(case RoundTrip example_Env (recorder_in (- 1) [], empty_Heap, empty_World) (GET ''http://x/1'') of
      Panics p \<Rightarrow> False
    | Returns (res, (r, h, w)) \<Rightarrow>
        res = Inr (response_of example_Env
                     \<lparr>Response.StatusCode = 200,
                      Response.Headers = [(''Content-Type'', ''text/plain'')],
                      Response.Body = ''call 1''\<rparr>)
        \<and> length (sent w) = 1 \<and> length (entries r) = 1 \<and> files w = Map.empty)"
  by (simp add: RoundTrip_def mode_defs once_Do_loadFromDisk_def loadFromDisk_def ReadFile_def
      live_call_def flattenHeader_def NopCloser_def record_entry_def new_Request_def
      new_Response_def load_Response_def response_of_def example_defs string_defs)

lemma RoundTrip_Mode_above:
  "Mode r > Passthrough \<Longrightarrow> RoundTrip env (r, h, w) req = Panics UnsupportedMode"
  by (simp add: RoundTrip_def)

section \<open>Loading a malformed file\<close>





section \<open>Lookup\<close>







section \<open>Replay of a recorded entry\<close>

text \<open>
  C3 (as amended). In \<open>Auto\<close> or \<open>ReplayOnly\<close> mode, when the selection finds an entry and
  that entry has a response, \<open>RoundTrip\<close> returns a response with the recorded status code,
  the expansion of the recorded headers, the recorded body, and the length of that body as
  content length. No request reaches a transport and no file changes.
\<close>

theorem RoundTrip_replay_response:
  assumes "Mode r = Auto \<or> Mode r = ReplayOnly"
    and "once_Do_loadFromDisk env (r, h, w) = Returns (r1, h1, w1)"
    and "select_entry env (r1, h1, w1) req = Returns ((e, True), (r2, h2, w2))"
    and "load_Response h2 (Response e) = Some resp"
  shows "RoundTrip env (r, h, w) req
           = Returns (Inr \<lparr>StatusCode = Response.StatusCode resp,
                           Header = expandHeader env (Response.Headers resp),
                           Body = NopCloser (Response.Body resp),
                           ContentLength = int (length (Response.Body resp))\<rparr>,
                      (r2, h2, w2))
         \<and> sent w2 = sent w \<and> files w2 = files w"
proof -
  from once_Do_frame[OF assms(2)] have f1: "w1 = w" "Mode r1 = Mode r" "once r1"
    by simp_all
  from select_entry_frame[OF f1(3) assms(3)] have f2: "w2 = w1" by simp
  have "Mode r \<le> Passthrough" using assms(1) by (auto simp: mode_defs)
  then have "RoundTrip env (r, h, w) req = Returns (Inr (response_of env resp), (r2, h2, w2))"
    using assms f1 by (simp add: RoundTrip_def replay_def)
  with f1 f2 show ?thesis by (simp add: response_of_def)
qed

theorem RoundTrip_replay_response_witness:
  "(Mode (loaded_recorder Auto) = Auto \<or> Mode (loaded_recorder Auto) = ReplayOnly)
   \<and> once_Do_loadFromDisk example_Env (loaded_recorder Auto, example_Heap, empty_World)
       = Returns (loaded_recorder Auto, example_Heap, empty_World)
   \<and> select_entry example_Env (loaded_recorder Auto, example_Heap, empty_World) (GET ''http://x/1'')
       = Returns ((\<lparr>Request = Some 0, Response = Some 0\<rparr>, True),
                  (loaded_recorder Auto, example_Heap, empty_World))
   \<and> load_Response example_Heap (Response \<lparr>Request = Some 0, Response = Some 0\<rparr>)
       = Some \<lparr>Response.StatusCode = 200,
               Response.Headers = [(''Content-Type'', ''text/plain'')],
               Response.Body = ''hello''\<rparr>
   \<and> RoundTrip example_Env (loaded_recorder Auto, example_Heap, empty_World) (GET ''http://x/1'')
       = Returns (Inr \<lparr>StatusCode = 200, Header = [(''Content-Type'', [''text/plain''])],
                       Body = NopCloser ''hello'', ContentLength = 5\<rparr>,
                  (loaded_recorder Auto, example_Heap, empty_World))"
proof -
  let ?r = "loaded_recorder Auto"
  have a: "Mode ?r = Auto \<or> Mode ?r = ReplayOnly" by (simp add: example_defs)
  have b: "once_Do_loadFromDisk example_Env (?r, example_Heap, empty_World)
       = Returns (?r, example_Heap, empty_World)"
    by (simp add: once_Do_loadFromDisk_def example_defs)
  have c: "select_entry example_Env (?r, example_Heap, empty_World) (GET ''http://x/1'')
       = Returns ((\<lparr>Request = Some 0, Response = Some 0\<rparr>, True), (?r, example_Heap, empty_World))"
    by (simp add: select_entry_def Lookup_def once_Do_loadFromDisk_def load_Request_def
        example_defs string_defs)
  have d: "load_Response example_Heap (Response \<lparr>Request = Some 0, Response = Some 0\<rparr>)
       = Some \<lparr>Response.StatusCode = 200,
               Response.Headers = [(''Content-Type'', ''text/plain'')],
               Response.Body = ''hello''\<rparr>"
    by (simp add: load_Response_def example_defs)
  from RoundTrip_replay_response[OF a b c d] a b c d show ?thesis
    by (simp add: expandHeader_def example_defs)
qed

text \<open>
  C3 as stated fails when the entry found has no response: \<^verbatim>\<open>resp := e.Response\<close> is nil
  and \<^verbatim>\<open>resp.StatusCode\<close> panics. A backing file with a request and no response gives such
  an entry.
\<close>

theorem RoundTrip_nil_Response_counterexample:
  "once_Do_loadFromDisk example_Env (recorder_in ReplayOnly [], empty_Heap, request_only_World)
     = Returns (request_only_recorder ReplayOnly, request_only_Heap, request_only_World)
   \<and> select_entry example_Env
         (request_only_recorder ReplayOnly, request_only_Heap, request_only_World)
         (GET ''http://x/1'')
     = Returns ((\<lparr>Request = Some 0, Response = None\<rparr>, True),
                (request_only_recorder ReplayOnly, request_only_Heap, request_only_World))
   \<and> RoundTrip example_Env (recorder_in ReplayOnly [], empty_Heap, request_only_World)
         (GET ''http://x/1'')
     = Panics NilDereference"
  by (simp add: RoundTrip_eval mode_defs example_defs string_defs)

section \<open>Filters that work in place, and what a live call leaves behind\<close>



lemma apply_Filters_in_place:
  assumes "\<forall>f \<in> set fs. in_place f" and "apply_Filters fs (e, h) = Returns (e', h')"
  shows "Request e' = Request e \<and> Response e' = Response e
        \<and> length (requests h') = length (requests h)
        \<and> length (responses h') = length (responses h)
        \<and> (\<forall>a < length (requests h).
              Request.Method (requests h' ! a) = Request.Method (requests h ! a)
              \<and> Request.URL (requests h' ! a) = Request.URL (requests h ! a))"
  using assms
proof (induction fs arbitrary: e h)
  case Nil
  then show ?case by simp
next
  case (Cons f fs)
  from Cons.prems(2) obtain e1 h1 where s1: "f (e, h) = Returns (e1, h1)"
    and s2: "apply_Filters fs (e1, h1) = Returns (e', h')"
    by (auto split: outcome.splits)
  from Cons.prems(1) have "in_place f" by simp
  with s1 have a: "Request e1 = Request e" "Response e1 = Response e"
    "length (requests h1) = length (requests h)" "length (responses h1) = length (responses h)"
    "\<forall>a < length (requests h).
              Request.Method (requests h1 ! a) = Request.Method (requests h ! a)
              \<and> Request.URL (requests h1 ! a) = Request.URL (requests h ! a)"
    unfolding in_place_def by blast+
  from Cons.prems(1) have "\<forall>f \<in> set fs. in_place f" by simp
  from Cons.IH[OF this s2] a show ?case by simp
qed

lemma Fprintf_sent: "sent (Fprintf name text w) = sent w"
  by (simp add: Fprintf_def split: option.splits)

lemma write_comments_sent: "sent (write_comments env n f idx w) = sent w"
  by (simp add: write_comments_def Let_def Fprintf_sent)

lemma write_entry_sent: "write_entry env f ev w = (res, w') \<Longrightarrow> sent w' = sent w"
  by (auto simp: write_entry_def Let_def Fprintf_sent split: sum.splits option.splits)

lemma OpenFile_write_sent: "OpenFile_write env t f w = Inr w1 \<Longrightarrow> sent w1 = sent w"
  by (auto simp: OpenFile_write_def split: option.splits if_splits)

lemma save_to_disk_frame:
  assumes "save_to_disk env n e (r, h, w) = (res, (r', h', w'))"
  shows "h' = h \<and> entries r' = entries r \<and> Mode r' = Mode r \<and> Selector r' = Selector r
         \<and> Filters r' = Filters r \<and> once r' = once r \<and> Transport r' = Transport r
         \<and> Filename r' = Filename r \<and> sent w' = sent w"
proof (cases "io_fault env (MkdirAll_Dir (Filename r)) w")
  case (Some err)
  with assms show ?thesis by (simp add: save_to_disk_def)
next
  case None
  show ?thesis
  proof (cases "OpenFile_write env (index r = 0) (Filename r) w")
    case (Inl err)
    with None assms show ?thesis by (simp add: save_to_disk_def)
  next
    case (Inr w1)
    let ?w5 = "write_comments env n (Filename r) (index r) w1"
    obtain res6 w6 where we: "write_entry env (Filename r)
        (load_Request h (Request e), load_Response h (Response e)) ?w5 = (res6, w6)"
      by (cases "write_entry env (Filename r)
        (load_Request h (Request e), load_Response h (Response e)) ?w5")
    from write_entry_sent[OF we] have "sent w6 = sent w"
      by (simp add: write_comments_sent OpenFile_write_sent[OF Inr])
    with None Inr we assms show ?thesis
      by (auto simp: save_to_disk_def Let_def)
  qed
qed

lemma record_entry_Returns:
  assumes "record_entry env n out in' (r, h, w) = Returns (res, (r', h', w'))"
  shows "\<exists>e' in_now.
           apply_Filters (Filters r)
             (\<lparr>Request = Some (length (requests h)), Response = Some (length (responses h))\<rparr>,
              h\<lparr>requests := requests h @ [out], responses := responses h @ [in']\<rparr>)
             = Returns (e', h')
           \<and> load_Response h' (Some (length (responses h))) = Some in_now
           \<and> entries r' = entries r @ [e']
           \<and> Mode r' = Mode r \<and> Selector r' = Selector r \<and> Filters r' = Filters r
           \<and> once r' = once r \<and> Filename r' = Filename r \<and> Transport r' = Transport r
           \<and> sent w' = sent w
           \<and> (Mode r \<noteq> Auto \<and> Mode r \<noteq> Record \<longrightarrow> w' = w \<and> index r' = index r)
           \<and> (\<forall>resp. res = Inr resp \<longrightarrow> resp = response_of env in_now)"
proof -
  let ?e = "\<lparr>Request = Some (length (requests h)), Response = Some (length (responses h))\<rparr>"
  let ?h2 = "h\<lparr>requests := requests h @ [out], responses := responses h @ [in']\<rparr>"
  from assms obtain e' h3 where fl: "apply_Filters (Filters r) (?e, ?h2) = Returns (e', h3)"
    by (auto simp: record_entry_def new_Request_def new_Response_def Let_def
        split: outcome.splits)
  from assms fl obtain in_now where ld: "load_Response h3 (Some (length (responses h))) = Some in_now"
    by (auto simp: record_entry_def new_Request_def new_Response_def Let_def
        split: option.splits)
  show ?thesis
  proof (cases "Mode r = Auto \<or> Mode r = Record")
    case False
    with assms fl ld show ?thesis
      by (auto simp: record_entry_def new_Request_def new_Response_def Let_def)
  next
    case True
    obtain sres r4 h4 w4 where sv:
      "save_to_disk env n e' (r\<lparr>entries := entries r @ [e']\<rparr>, h3, w) = (sres, (r4, h4, w4))"
      by (metis prod_cases4)
    from save_to_disk_frame[OF sv] have fr: "h4 = h3" "entries r4 = entries r @ [e']"
      "Mode r4 = Mode r" "Selector r4 = Selector r" "Filters r4 = Filters r" "once r4 = once r"
      "Transport r4 = Transport r" "Filename r4 = Filename r" "sent w4 = sent w"
      by simp_all
    from assms fl ld True sv have "(r', h', w') = (r4, h4, w4)"
      and "\<forall>resp. res = Inr resp \<longrightarrow> resp = response_of env in_now"
      by (auto simp: record_entry_def new_Request_def new_Response_def Let_def
          split: option.splits)
    with fr fl ld True show ?thesis by auto
  qed
qed

lemma live_call_Inr:
  assumes "live_call env (r, h, w) req = Returns (Inr resp, (r', h', w'))"
  shows "\<exists>out in' e' in_now.
           Request.Method out = http_Request.Method req
           \<and> Request.URL out = http_Request.URL req
           \<and> apply_Filters (Filters r)
             (\<lparr>Request = Some (length (requests h)), Response = Some (length (responses h))\<rparr>,
              h\<lparr>requests := requests h @ [out], responses := responses h @ [in']\<rparr>)
             = Returns (e', h')
           \<and> load_Response h' (Some (length (responses h))) = Some in_now
           \<and> resp = response_of env in_now
           \<and> entries r' = entries r @ [e']
           \<and> Mode r' = Mode r \<and> Selector r' = Selector r \<and> Filters r' = Filters r
           \<and> once r' = once r \<and> Filename r' = Filename r
           \<and> length (sent w') = Suc (length (sent w))
           \<and> (Mode r \<noteq> Auto \<and> Mode r \<noteq> Record \<longrightarrow> files w' = files w \<and> index r' = index r)"
proof -
  let ?tr = "case Transport r of None \<Rightarrow> DefaultTransport env | Some t \<Rightarrow> t"
  let ?r = "r\<lparr>Transport := Some ?tr\<rparr>"
  from assms obtain bodyOut where bo:
    "(case http_Request.Body req of None \<Rightarrow> Inr [] | Some b \<Rightarrow> read_all b) = Inr bodyOut"
    by (auto simp: live_call_def Let_def split: sum.splits)
  let ?req1 = "req\<lparr>http_Request.Body := Some (NopCloser bodyOut)\<rparr>"
  from assms bo obtain hdrs0 where h0: "flattenHeader (http_Request.Header req) = Returns hdrs0"
    by (auto simp: live_call_def Let_def split: outcome.splits)
  from assms bo h0 obtain hdrs where h1: "flatten_into hdrs0 (http_Request.Header req) = Returns hdrs"
    by (auto simp: live_call_def Let_def split: outcome.splits)
  let ?out = "\<lparr>Request.Method = http_Request.Method req, Request.URL = http_Request.URL req,
               Request.Headers = hdrs, Request.Body = bodyOut\<rparr>"
  let ?w1 = "w\<lparr>sent := sent w @ [?req1]\<rparr>"
  from assms bo h0 h1 obtain tresp where tr: "?tr (sent w) ?req1 = Inr tresp"
    by (auto simp: live_call_def Let_def split: sum.splits)
  from assms bo h0 h1 tr obtain rh where rh: "flattenHeader (http_Response.Header tresp) = Returns rh"
    by (auto simp: live_call_def Let_def split: outcome.splits)
  from assms bo h0 h1 tr rh obtain bodyIn where bi: "read_all (http_Response.Body tresp) = Inr bodyIn"
    by (auto simp: live_call_def Let_def split: sum.splits)
  from assms bo h0 h1 tr rh bi have cl: "close (http_Response.Body tresp) = None"
    by (auto simp: live_call_def Let_def split: option.splits)
  let ?in = "\<lparr>Response.StatusCode = http_Response.StatusCode tresp, Response.Headers = rh,
              Response.Body = bodyIn\<rparr>"
  from assms bo h0 h1 tr rh bi cl
  have re: "record_entry env (length (sent w)) ?out ?in (?r, h, ?w1) = Returns (Inr resp, (r', h', w'))"
    by (simp add: live_call_def Let_def)
  from record_entry_Returns[OF re] show ?thesis
    apply clarsimp
    apply (rule exI[of _ ?out])
    apply simp
    apply (rule exI[of _ ?in])
    apply auto
    done
qed



lemma EqualFold_trans: "EqualFold s t \<Longrightarrow> EqualFold t u \<Longrightarrow> EqualFold s u"
  by (simp add: EqualFold_def)









text \<open>What a live call that returns a response leaves behind, when the filters work in
  place.\<close>

lemma live_call_in_place:
  assumes "live_call env (r, h, w) req = Returns (Inr resp, (r', h', w'))"
    and "\<forall>f \<in> set (Filters r). in_place f"
  shows "\<exists>e'. entries r' = entries r @ [e']
           \<and> Request e' = Some (length (requests h)) \<and> Response e' = Some (length (responses h))
           \<and> length (requests h') = Suc (length (requests h))
           \<and> length (responses h') = Suc (length (responses h))
           \<and> keys_kept h h'
           \<and> Request.Method (requests h' ! length (requests h)) = http_Request.Method req
           \<and> Request.URL (requests h' ! length (requests h)) = http_Request.URL req
           \<and> resp = response_of env (responses h' ! length (responses h))
           \<and> Mode r' = Mode r \<and> Selector r' = Selector r \<and> Filters r' = Filters r
           \<and> once r' = once r \<and> Filename r' = Filename r
           \<and> length (sent w') = Suc (length (sent w))
           \<and> (Mode r \<noteq> Auto \<and> Mode r \<noteq> Record \<longrightarrow> files w' = files w \<and> index r' = index r)"
proof -
  from live_call_Inr[OF assms(1)] obtain out in' e' in_now where L:
    "Request.Method out = http_Request.Method req"
    "Request.URL out = http_Request.URL req"
    "apply_Filters (Filters r)
             (\<lparr>Request = Some (length (requests h)), Response = Some (length (responses h))\<rparr>,
              h\<lparr>requests := requests h @ [out], responses := responses h @ [in']\<rparr>)
             = Returns (e', h')"
    "load_Response h' (Some (length (responses h))) = Some in_now"
    "resp = response_of env in_now"
    "entries r' = entries r @ [e']"
    "Mode r' = Mode r" "Selector r' = Selector r" "Filters r' = Filters r"
    "once r' = once r" "Filename r' = Filename r"
    "length (sent w') = Suc (length (sent w))"
    "Mode r \<noteq> Auto \<and> Mode r \<noteq> Record \<longrightarrow> files w' = files w \<and> index r' = index r"
    by blast
  let ?h2 = "h\<lparr>requests := requests h @ [out], responses := responses h @ [in']\<rparr>"
  from apply_Filters_in_place[OF assms(2) L(3)]
  have F: "Request e' = Some (length (requests h))" "Response e' = Some (length (responses h))"
    "length (requests h') = length (requests ?h2)" "length (responses h') = length (responses ?h2)"
    "\<forall>a < length (requests ?h2).
              Request.Method (requests h' ! a) = Request.Method (requests ?h2 ! a)
              \<and> Request.URL (requests h' ! a) = Request.URL (requests ?h2 ! a)"
    by simp_all
  have kk: "keys_kept h h'"
    unfolding keys_kept_def using F(3,5) by (auto simp: nth_append)
  have new: "Request.Method (requests h' ! length (requests h)) = http_Request.Method req"
    "Request.URL (requests h' ! length (requests h)) = http_Request.URL req"
    using F(5) L(1,2) by (auto simp: nth_append)
  have "in_now = responses h' ! length (responses h)"
    using L(4) by (auto simp: load_Response_def split: if_splits)
  with L F kk new show ?thesis by simp
qed

section \<open>Auto mode: one live call, then replay\<close>






text \<open>The condition on the filters is needed as well: with a filter that rewrites the
  recorded URL the lookup of the second identical call finds nothing, and two identical
  calls make two live calls.\<close>

lemma Auto_rewriting_filter_example:
  "live_calls (RoundTrips example_Env (recorder_in Auto [rewrite_URL], empty_Heap, empty_World)
                 [GET ''http://x/1'', GET ''http://x/1'']) = Some 2"
  by (simp add: live_calls_def RoundTrip_eval fixture_defs mode_defs
      example_defs string_defs)

section \<open>Passthrough mode\<close>





section \<open>Filters and the response returned by a live call\<close>

lemma apply_Filters_append:
  "apply_Filters (fs @ gs) eh =
     (case apply_Filters fs eh of Panics p \<Rightarrow> Panics p | Returns eh' \<Rightarrow> apply_Filters gs eh')"
  by (induction fs arbitrary: eh) (auto split: outcome.splits)

text \<open>With filters that work in place, the response returned by a live call is the one a
  replay of the appended entry gives.\<close>

lemma live_call_returns_appended_Response:
  assumes "live_call env (r, h, w) req = Returns (Inr resp, (r', h', w'))"
    and "\<forall>f \<in> set (Filters r). in_place f"
  shows "replay env h' (last (entries r')) = Returns resp"
proof -
  from live_call_in_place[OF assms] obtain e' where
    "entries r' = entries r @ [e']" "Response e' = Some (length (responses h))"
    "length (responses h') = Suc (length (responses h))"
    "resp = response_of env (responses h' ! length (responses h))"
    by blast
  then show ?thesis by (simp add: replay_def load_Response_def)
qed

text \<open>
  C7. The filters run in the order of the list, each on what the one before left
  (\<open>apply_Filters\<close>), and the entry they leave is the one appended. The response for the
  caller is built from what the pointer \<^verbatim>\<open>in\<close> points to after the filters, not from
  \<^verbatim>\<open>e.Response\<close>. The two agree while the filters change the response in place. With a
  filter that points \<^verbatim>\<open>e.Response\<close> at a new response, the caller still receives the
  response of the transport (status 200, body \<^verbatim>\<open>call 1\<close>), while the entry appended (and
  replayed later) holds the new one (status 418, body \<^verbatim>\<open>redacted\<close>).
\<close>

theorem RoundTrip_repointed_Response:
  "(case RoundTrip example_Env (recorder_in Passthrough [replace_Response], empty_Heap, empty_World)
           (GET ''http://x/1'') of
      Panics p \<Rightarrow> False
    | Returns (res, (r, h, w)) \<Rightarrow>
        res = Inr call_1
        \<and> map (\<lambda>e. load_Response h (Response e)) (entries r)
            = [Some \<lparr>Response.StatusCode = 418, Response.Headers = [],
                     Response.Body = ''redacted''\<rparr>])"
  by (simp add: RoundTrip_eval fixture_defs mode_defs example_defs string_defs)

section \<open>Entries with both parts\<close>









section \<open>The consume-once selector\<close>














text \<open>The run of \<^verbatim>\<open>TestOncePerCall\<close>, evaluated.\<close>

lemma test_run:
  "founds_of (Select_calls test_Heap test_entries test_requests \<lparr>used = None\<rparr>)
     = [(\<lparr>Request = Some 0, Response = Some 0\<rparr>, True),
        (\<lparr>Request = Some 3, Response = Some 3\<rparr>, True),
        (\<lparr>Request = Some 1, Response = Some 1\<rparr>, True),
        (\<lparr>Request = Some 4, Response = Some 4\<rparr>, True),
        (\<lparr>Request = Some 2, Response = Some 2\<rparr>, True),
        (zero_Entry, False), (zero_Entry, False), (zero_Entry, False)]"
  by (simp add: founds_of_def OncePerCall_Select_def load_Request_def test_defs string_defs)

end
